theory Spec2Isabelle
  imports Main
begin

section \<open>JavaScript values used by the console\<close>

text \<open>
  The sources are TypeScript. A value of type \<open>string | null | undefined\<close> is a
  \<open>string option\<close> (\<open>None\<close> for null and undefined alike: the code never tells them
  apart). A string is a list of characters. Everything an awaited call can do besides
  returning is a thrown value: either an \<open>Error\<close> object carrying a message, or
  any other value.
\<close>

datatype thrown = ErrorObj string | NonError

type_synonym 'a outcome = "thrown + 'a"

text \<open>Truthiness of an optional string: null, undefined and the empty string are falsy.\<close>

definition truthy :: "string option \<Rightarrow> bool" where
  "truthy v = (case v of None \<Rightarrow> False | Some s \<Rightarrow> s \<noteq> [])"

text \<open>\<open>a || b\<close> on strings: \<open>a\<close> when it is truthy, \<open>b\<close> otherwise.\<close>

definition or_else :: "string option \<Rightarrow> string \<Rightarrow> string" where
  "or_else v d = (case v of None \<Rightarrow> d | Some s \<Rightarrow> if s = [] then d else s)"

text \<open>\<open>err instanceof Error ? err.message : fallback\<close>, the pattern of every catch block.\<close>

definition err_message :: "thrown \<Rightarrow> string \<Rightarrow> string" where
  "err_message e fallback = (case e of ErrorObj m \<Rightarrow> m | NonError \<Rightarrow> fallback)"

text \<open>\<open>s.startsWith(p)\<close> and \<open>s.includes(p)\<close>.\<close>

fun startsWith :: "string \<Rightarrow> string \<Rightarrow> bool" where
  "startsWith s [] = True"
| "startsWith [] (p # ps) = False"
| "startsWith (c # cs) (p # ps) = (c = p \<and> startsWith cs ps)"

fun includes_str :: "string \<Rightarrow> string \<Rightarrow> bool" where
  "includes_str [] p = (p = [])"
| "includes_str (c # cs) p = (startsWith (c # cs) p \<or> includes_str cs p)"

text \<open>
  \<open>v?.includes(p)\<close>: undefined when \<open>v\<close> is absent, else the boolean. Its
  truthiness is what \<open>Array.prototype.filter\<close> and the negation \<open>!\<close> look at.
\<close>

definition opt_includes :: "string option \<Rightarrow> string \<Rightarrow> bool option" where
  "opt_includes v p = map_option (\<lambda>s. includes_str s p) v"

definition truthy_bool :: "bool option \<Rightarrow> bool" where
  "truthy_bool b = (case b of None \<Rightarrow> False | Some x \<Rightarrow> x)"

section \<open>File Table Controller: data\<close>

text \<open>
  \<open>drive_v3.Schema$File\<close>: every field is optional. Only the three fields the table
  reads are kept; \<open>id\<close> and \<open>name\<close> are \<open>file_id\<close> and \<open>file_name\<close> here.
\<close>

record file_entry =
  file_id :: "string option"
  file_name :: "string option"
  mimeType :: "string option"

datatype filter_sel = FilterAll | FilterFiles | FilterFolders

text \<open>The callback of \<open>files.filter(...)\<close> in \<open>Table.tsx\<close>, and the filtered list.\<close>

definition keep_file :: "filter_sel \<Rightarrow> file_entry \<Rightarrow> bool" where
  "keep_file flt file =
     (if flt = FilterAll then True
      else if flt = FilterFolders then truthy_bool (opt_includes (mimeType file) ''folder'')
      else \<not> truthy_bool (opt_includes (mimeType file) ''folder''))"

definition filteredFiles :: "filter_sel \<Rightarrow> file_entry list \<Rightarrow> file_entry list" where
  "filteredFiles flt fs = filter (keep_file flt) fs"

text \<open>"The mimeType does not contain the substring folder": absent, or present without it.\<close>

definition lacks_folder :: "file_entry \<Rightarrow> bool" where
  "lacks_folder file = (case mimeType file of None \<Rightarrow> True | Some m \<Rightarrow> \<not> includes_str m ''folder'')"

text \<open>
  \<open>LoadingState\<close> with its keys \<open>files\<close>, \<open>folders\<close>, \<open>operations\<close>, and the
  state of the delete confirmation.
\<close>

record loading_state =
  ld_files :: bool
  ld_folders :: bool
  ld_operations :: bool

datatype loading_key = KFiles | KFolders | KOperations

record delete_modal =
  isOpen :: bool
  fileId :: "string option"
  fileName :: string

text \<open>
  The request of \<open>callApi\<close> (action, fileId, fileName, accessToken) and the envelope it
  resolves to. \<open>callApi\<close>, \<open>fetchDriveFiles\<close> and \<open>fetchDriveFolders\<close> are calls
  to the Server Action Layer; what they answer is not decided by the controller, so each
  handler below takes the outcome of every call it awaits as an argument.
\<close>

datatype api_action = Rename | Delete | GetUrl

record api_response =
  success :: bool
  message :: "string option"
  url :: "string option"

text \<open>
  What the controller does to the world outside its own state, in the order it does it:
  the network calls, the blocking prompt, the clipboard write and the timer it arms.
\<close>

datatype effect =
    FetchDriveFiles string
  | FetchDriveFolders string
  | CallApi api_action "string option" "string option" string
  | Prompt string
  | ClipboardWriteText string
  | SetTimeout nat

fun is_network :: "effect \<Rightarrow> bool" where
  "is_network (FetchDriveFiles t) = True"
| "is_network (FetchDriveFolders t) = True"
| "is_network (CallApi a f n t) = True"
| "is_network (Prompt m) = False"
| "is_network (ClipboardWriteText u) = False"
| "is_network (SetTimeout d) = False"

text \<open>
  The \<open>useState\<close> cells of \<open>DriveTable\<close> (the constant \<open>selectedFolderId\<close> is
  left out: nothing writes it), followed by the environment the handlers act on: the
  trace of effects, the clipboard content, the due times of the armed timers and a clock
  in milliseconds. Every timer the component arms has the same callback,
  \<open>setCopiedFileId(null)\<close>, so a timer is its due time.
\<close>

record table_state =
  files :: "file_entry list"
  copiedFileId :: "string option"
  folders :: "file_entry list"
  isLoading :: loading_state
  error :: "string option"
  deleteModal :: delete_modal
  filterSel :: filter_sel
  effects :: "effect list"
  clipboard :: "string option"
  timers :: "nat list"
  now :: nat

definition closed_modal :: delete_modal where
  "closed_modal = \<lparr>isOpen = False, fileId = None, fileName = ''''\<rparr>"

definition init_state :: "file_entry list \<Rightarrow> table_state" where
  "init_state initialFiles =
     \<lparr>files = initialFiles, copiedFileId = None, folders = [],
      isLoading = \<lparr>ld_files = False, ld_folders = False, ld_operations = False\<rparr>,
      error = None, deleteModal = closed_modal, filterSel = FilterAll,
      effects = [], clipboard = None, timers = [], now = 0\<rparr>"

definition emit :: "effect \<Rightarrow> table_state \<Rightarrow> table_state" where
  "emit e s = s\<lparr>effects := effects s @ [e]\<rparr>"

fun setLoadingState :: "loading_key \<Rightarrow> bool \<Rightarrow> table_state \<Rightarrow> table_state" where
  "setLoadingState KFiles v s = s\<lparr>isLoading := (isLoading s)\<lparr>ld_files := v\<rparr>\<rparr>"
| "setLoadingState KFolders v s = s\<lparr>isLoading := (isLoading s)\<lparr>ld_folders := v\<rparr>\<rparr>"
| "setLoadingState KOperations v s = s\<lparr>isLoading := (isLoading s)\<lparr>ld_operations := v\<rparr>\<rparr>"

section \<open>File Table Controller: operations\<close>

subsection \<open>List\<close>

text \<open>
  \<open>fetchFiles\<close> runs up to its \<open>await\<close> (the start), and resumes when the call has
  settled with the outcome \<open>r\<close> (the finish: try or catch branch, then finally).
  \<open>fetchFolders\<close> has the same shape.
\<close>

definition fetchFiles_start :: "string \<Rightarrow> table_state \<Rightarrow> table_state" where
  "fetchFiles_start accessToken s =
     emit (FetchDriveFiles accessToken) ((setLoadingState KFiles True s)\<lparr>error := None\<rparr>)"

definition fetchFiles_finish :: "file_entry list outcome \<Rightarrow> table_state \<Rightarrow> table_state" where
  "fetchFiles_finish r s =
     setLoadingState KFiles False
       (case r of
          Inr fs \<Rightarrow> s\<lparr>files := fs\<rparr>
        | Inl e \<Rightarrow> s\<lparr>error := Some (err_message e ''Failed to load files. Please try again.'')\<rparr>)"

definition fetchFiles :: "string \<Rightarrow> file_entry list outcome \<Rightarrow> table_state \<Rightarrow> table_state" where
  "fetchFiles accessToken r s = fetchFiles_finish r (fetchFiles_start accessToken s)"

definition fetchFolders_start :: "string \<Rightarrow> table_state \<Rightarrow> table_state" where
  "fetchFolders_start accessToken s =
     emit (FetchDriveFolders accessToken) ((setLoadingState KFolders True s)\<lparr>error := None\<rparr>)"

definition fetchFolders_finish :: "file_entry list outcome \<Rightarrow> table_state \<Rightarrow> table_state" where
  "fetchFolders_finish r s =
     setLoadingState KFolders False
       (case r of
          Inr fs \<Rightarrow> s\<lparr>folders := fs\<rparr>
        | Inl e \<Rightarrow> s\<lparr>error := Some (err_message e ''Failed to load folders. Please try again.'')\<rparr>)"

definition fetchFolders :: "string \<Rightarrow> file_entry list outcome \<Rightarrow> table_state \<Rightarrow> table_state" where
  "fetchFolders accessToken r s = fetchFolders_finish r (fetchFolders_start accessToken s)"

text \<open>
  The mount effect calls \<open>fetchFiles()\<close> and then \<open>fetchFolders()\<close> without awaiting
  either. \<open>fetchDriveFiles\<close> and \<open>fetchDriveFolders\<close> return promises, so both
  functions run to their \<open>await\<close> one after the other, and the two continuations run
  later, in the order in which the two calls settle.
\<close>

datatype settle_order = FilesFirst | FoldersFirst

definition mount_effect ::
  "string \<Rightarrow> settle_order \<Rightarrow> file_entry list outcome \<Rightarrow> file_entry list outcome
     \<Rightarrow> table_state \<Rightarrow> table_state" where
  "mount_effect accessToken ord rf rd s =
     (let s1 = fetchFolders_start accessToken (fetchFiles_start accessToken s)
      in case ord of
           FilesFirst \<Rightarrow> fetchFolders_finish rd (fetchFiles_finish rf s1)
         | FoldersFirst \<Rightarrow> fetchFiles_finish rf (fetchFolders_finish rd s1))"

subsection \<open>Mutating operations\<close>

text \<open>
  \<open>handleApiOperation(operation, successMessage)\<close>. Both callers pass an operation
  that awaits one \<open>callApi\<close> request and drops its answer; \<open>req\<close> is that request
  and \<open>opr\<close> its outcome. \<open>fr\<close> is the outcome of the fetch that follows.
\<close>

definition handleApiOperation ::
  "string \<Rightarrow> effect \<Rightarrow> api_response outcome \<Rightarrow> file_entry list outcome
     \<Rightarrow> table_state \<Rightarrow> table_state" where
  "handleApiOperation accessToken req opr fr s =
     (let s1 = emit req ((setLoadingState KOperations True s)\<lparr>error := None\<rparr>)
      in setLoadingState KOperations False
           (case opr of
              Inr res \<Rightarrow> fetchFiles accessToken fr s1
            | Inl e \<Rightarrow> s1\<lparr>error := Some (err_message e ''Operation failed. Please try again.'')\<rparr>))"

text \<open>
  \<open>String.prototype.trim\<close> strips white space and line terminators from both ends.
  A character here is a code unit below 256, where those are tab, line feed, vertical
  tab, form feed, carriage return, space and no-break space.
\<close>

definition is_space :: "char \<Rightarrow> bool" where
  "is_space c = (let n = (of_char c :: nat)
                 in n = 9 \<or> n = 10 \<or> n = 11 \<or> n = 12 \<or> n = 13 \<or> n = 32 \<or> n = 160)"

definition trim :: "string \<Rightarrow> string" where
  "trim s = rev (dropWhile is_space (rev (dropWhile is_space s)))"

text \<open>\<open>handleRename(fileId)\<close>; \<open>p\<close> is what the prompt returns (null on cancel).\<close>

definition handleRename ::
  "string \<Rightarrow> string option \<Rightarrow> string option \<Rightarrow> api_response outcome
     \<Rightarrow> file_entry list outcome \<Rightarrow> table_state \<Rightarrow> table_state" where
  "handleRename accessToken fid p opr fr s =
     (if \<not> truthy fid then s
      else let s1 = emit (Prompt ''Enter new name:'') s
           in if \<not> truthy (map_option trim p) then s1
              else handleApiOperation accessToken (CallApi Rename fid p accessToken) opr fr s1)"

definition handleDelete :: "string option \<Rightarrow> string option \<Rightarrow> table_state \<Rightarrow> table_state" where
  "handleDelete fid fname s =
     (if \<not> truthy fid then s
      else s\<lparr>deleteModal :=
                \<lparr>isOpen = True, fileId = fid, fileName = or_else fname ''this file''\<rparr>\<rparr>)"

definition confirmDelete ::
  "string \<Rightarrow> api_response outcome \<Rightarrow> file_entry list outcome \<Rightarrow> table_state \<Rightarrow> table_state" where
  "confirmDelete accessToken opr fr s =
     (if \<not> truthy (fileId (deleteModal s)) then s
      else (handleApiOperation accessToken
              (CallApi Delete (fileId (deleteModal s)) None accessToken) opr fr s)
           \<lparr>deleteModal := closed_modal\<rparr>)"

text \<open>The \<open>onClose\<close> callback handed to \<open>DeleteModal\<close> (cancel).\<close>

definition onClose :: "table_state \<Rightarrow> table_state" where
  "onClose s = s\<lparr>deleteModal := closed_modal\<rparr>"

subsection \<open>CopyUrl\<close>

text \<open>
  \<open>handleCopyUrl(fileId)\<close>; \<open>r\<close> is the outcome of the \<open>getUrl\<close> request and
  \<open>cw\<close> the outcome of \<open>navigator.clipboard.writeText\<close>, which can reject.
\<close>

definition copy_failed :: "thrown \<Rightarrow> table_state \<Rightarrow> table_state" where
  "copy_failed e s = s\<lparr>error := Some (err_message e ''Failed to copy URL. Please try again.'')\<rparr>"

definition handleCopyUrl ::
  "string \<Rightarrow> string option \<Rightarrow> api_response outcome \<Rightarrow> unit outcome
     \<Rightarrow> table_state \<Rightarrow> table_state" where
  "handleCopyUrl accessToken fid r cw s =
     (if \<not> truthy fid then s
      else
        let s1 = emit (CallApi GetUrl fid None accessToken)
                   ((setLoadingState KOperations True s)\<lparr>error := None\<rparr>)
        in setLoadingState KOperations False
             (case r of
                Inl e \<Rightarrow> copy_failed e s1
              | Inr res \<Rightarrow>
                  if success res \<and> truthy (url res) then
                    (let s2 = emit (ClipboardWriteText (the (url res))) s1
                     in case cw of
                          Inl e \<Rightarrow> copy_failed e s2
                        | Inr u \<Rightarrow>
                            (emit (SetTimeout 2000) s2)
                              \<lparr>clipboard := url res, copiedFileId := fid,
                               timers := timers s2 @ [now s2 + 2000]\<rparr>)
                  else copy_failed (ErrorObj (or_else (message res) ''Failed to get file URL'')) s1))"

text \<open>
  Time passing: \<open>d\<close> milliseconds later every timer that has come due has run its
  callback \<open>setCopiedFileId(null)\<close> and is gone.
\<close>

definition elapse :: "nat \<Rightarrow> table_state \<Rightarrow> table_state" where
  "elapse d s =
     (let t = now s + d
      in s\<lparr>now := t,
            timers := filter (\<lambda>due. t < due) (timers s),
            copiedFileId := (if list_ex (\<lambda>due. due \<le> t) (timers s) then None
                             else copiedFileId s)\<rparr>)"

subsection \<open>The controller as a transition system\<close>

text \<open>
  One event per thing that can happen to the mounted table: a fetch starting or
  settling (the mount effect and the Refresh button), a handler run with the outcomes of
  its awaited calls, a filter button, time passing. A handler runs to its end within one
  event: no other event and no time falls between its \<open>await\<close> and its continuation.
\<close>

datatype event =
    EvFetchFilesStart
  | EvFetchFilesFinish "file_entry list outcome"
  | EvFetchFoldersStart
  | EvFetchFoldersFinish "file_entry list outcome"
  | EvSetFilter filter_sel
  | EvRename "string option" "string option" "api_response outcome" "file_entry list outcome"
  | EvDelete "string option" "string option"
  | EvConfirmDelete "api_response outcome" "file_entry list outcome"
  | EvClose
  | EvCopyUrl "string option" "api_response outcome" "unit outcome"
  | EvElapse nat

fun step :: "string \<Rightarrow> event \<Rightarrow> table_state \<Rightarrow> table_state" where
  "step tok EvFetchFilesStart s = fetchFiles_start tok s"
| "step tok (EvFetchFilesFinish r) s = fetchFiles_finish r s"
| "step tok EvFetchFoldersStart s = fetchFolders_start tok s"
| "step tok (EvFetchFoldersFinish r) s = fetchFolders_finish r s"
| "step tok (EvSetFilter f) s = s\<lparr>filterSel := f\<rparr>"
| "step tok (EvRename fid p opr fr) s = handleRename tok fid p opr fr s"
| "step tok (EvDelete fid fname) s = handleDelete fid fname s"
| "step tok (EvConfirmDelete opr fr) s = confirmDelete tok opr fr s"
| "step tok EvClose s = onClose s"
| "step tok (EvCopyUrl fid r cw) s = handleCopyUrl tok fid r cw s"
| "step tok (EvElapse d) s = elapse d s"

fun run :: "string \<Rightarrow> event list \<Rightarrow> table_state \<Rightarrow> table_state" where
  "run tok [] s = s"
| "run tok (ev # evs) s = run tok evs (step tok ev s)"

section \<open>Auth Guard\<close>

datatype 'a view = ConnectPrompt | ErrorView | Children 'a

datatype guard_call = GetGoogleDriveFiles string

text \<open>
  \<open>AuthGuard\<close> returns the rendered view and the validation calls it issued. The
  outcome of \<open>getGoogleDriveFiles\<close> is the parameter \<open>v\<close>; it is read only when the
  call is made.
\<close>

definition AuthGuard :: "string option \<Rightarrow> 'a \<Rightarrow> unit outcome \<Rightarrow> 'a view \<times> guard_call list" where
  "AuthGuard accessToken children v =
     (if \<not> truthy accessToken then (ConnectPrompt, [])
      else (case v of
              Inl e \<Rightarrow> (ErrorView, [GetGoogleDriveFiles (the accessToken)])
            | Inr u \<Rightarrow> (Children children, [GetGoogleDriveFiles (the accessToken)])))"

section \<open>Management record route\<close>

text \<open>
  \<open>String.prototype.replace(pat, rep)\<close> with a string pattern: the first occurrence
  of \<open>pat\<close> is replaced, the rest of the string is kept.
\<close>

fun replace_first :: "string \<Rightarrow> string \<Rightarrow> string \<Rightarrow> string" where
  "replace_first [] pat rep = (if pat = [] then rep else [])"
| "replace_first (c # cs) pat rep =
     (if startsWith (c # cs) pat then rep @ drop (length pat) (c # cs)
      else c # replace_first cs pat rep)"

text \<open>The character class \<open>[a-zA-Z0-9_-]\<close>.\<close>

definition id_char :: "char \<Rightarrow> bool" where
  "id_char c = (let n = (of_char c :: nat)
                in (97 \<le> n \<and> n \<le> 122) \<or> (65 \<le> n \<and> n \<le> 90) \<or> (48 \<le> n \<and> n \<le> 57)
                   \<or> n = 95 \<or> n = 45)"

text \<open>
  \<open>photo.match(/\/file\/d\/([a-zA-Z0-9_-]+)/)\<close>, reduced to its capture group: the
  leftmost position where \<open>/file/d/\<close> is followed by at least one character of the
  class, and from there the longest run of such characters. \<open>None\<close> is the null of a
  failed match.
\<close>

fun match_file_id :: "string \<Rightarrow> string option" where
  "match_file_id [] = None"
| "match_file_id (c # cs) =
     (if startsWith (c # cs) ''/file/d/'' \<and> takeWhile id_char (drop 8 (c # cs)) \<noteq> []
      then Some (takeWhile id_char (drop 8 (c # cs)))
      else match_file_id cs)"

text \<open>
  The record \<open>getManagement\<close> returns (only the field the handler reads), the request
  (only the header it reads), and the JSON response with its status.
\<close>

record management =
  photo :: "string option"

record request =
  authorization :: "string option"

record json_response =
  status :: nat
  body_success :: bool
  body_message :: string

text \<open>
  What the handler does outside itself, in order: the two calls to the Management Record
  Store, the delete request to the Remote File Service (fileId, accessToken) and the two
  console lines.
\<close>

datatype route_effect =
    GetManagement string
  | CallApiDelete string string
  | ConsoleWarn
  | DeleteManagement string
  | ConsoleError

fun is_service_call :: "route_effect \<Rightarrow> bool" where
  "is_service_call ConsoleWarn = False"
| "is_service_call ConsoleError = False"
| "is_service_call e = True"

definition failure_response :: "thrown \<Rightarrow> json_response" where
  "failure_response e =
     \<lparr>status = 500, body_success = False,
      body_message = err_message e ''Failed to delete management''\<rparr>"

definition success_response :: json_response where
  "success_response =
     \<lparr>status = 200, body_success = True, body_message = ''Management deleted successfully''\<rparr>"

text \<open>
  The inner block of \<open>DELETE\<close>: the photo delete, with its own try and catch. \<open>ca\<close>
  is the outcome of \<open>callApi\<close>; the dynamic import before it loads a module of the
  repository and is taken to succeed.
\<close>

definition delete_photo :: "request \<Rightarrow> management \<Rightarrow> api_response outcome \<Rightarrow> route_effect list" where
  "delete_photo req m ca =
     (if truthy (photo m) \<and> includes_str (the (photo m)) ''drive.google.com/file/d/'' then
        (case match_file_id (the (photo m)) of
           None \<Rightarrow> []
         | Some fid \<Rightarrow>
             (let accessToken = map_option (\<lambda>h. replace_first h ''Bearer '' '''') (authorization req)
              in if truthy accessToken then
                   CallApiDelete fid (the accessToken) #
                     (case ca of Inl e \<Rightarrow> [ConsoleWarn] | Inr res \<Rightarrow> [])
                 else []))
      else [])"

text \<open>
  \<open>DELETE(request, {params})\<close> with \<open>params.id = rid\<close>; \<open>gm\<close> and \<open>dm\<close> are the
  outcomes of \<open>getManagement\<close> and \<open>deleteManagement\<close>.
\<close>

definition DELETE ::
  "request \<Rightarrow> string \<Rightarrow> management outcome \<Rightarrow> api_response outcome \<Rightarrow> unit outcome
     \<Rightarrow> route_effect list \<times> json_response" where
  "DELETE req rid gm ca dm =
     (case gm of
        Inl e \<Rightarrow> ([GetManagement rid, ConsoleError], failure_response e)
      | Inr m \<Rightarrow>
          (let tr = GetManagement rid # delete_photo req m ca @ [DeleteManagement rid]
           in case dm of
                Inl e \<Rightarrow> (tr @ [ConsoleError], failure_response e)
              | Inr u \<Rightarrow> (tr, success_response)))"

section \<open>Vocabulary of the properties\<close>

text \<open>The network calls among the effects of a state, in order.\<close>

definition network_calls :: "table_state \<Rightarrow> effect list" where
  "network_calls s = filter is_network (effects s)"

text \<open>
  A prompted name that is absent (the prompt was cancelled), empty, or made of white
  space only.
\<close>

definition blank_name :: "string option \<Rightarrow> bool" where
  "blank_name p = (case p of None \<Rightarrow> True | Some n \<Rightarrow> list_all is_space n)"

text \<open>
  The delete confirmation state is either the closed value or open on a present fileId.
\<close>

definition modal_consistent :: "delete_modal \<Rightarrow> bool" where
  "modal_consistent m = (m = closed_modal \<or> isOpen m \<and> truthy (fileId m))"

text \<open>
  The message a settled fetch puts into the error slot: none when it succeeded.
\<close>

definition failure_message :: "string \<Rightarrow> 'a outcome \<Rightarrow> string option" where
  "failure_message fallback r =
     (case r of Inr x \<Rightarrow> None | Inl e \<Rightarrow> Some (err_message e fallback))"

text \<open>
  The one error slot after the two fetches of the mount effect have settled: the message
  of the fetch that failed last, in the order of settling; none when neither failed.
\<close>

definition mount_error ::
  "settle_order \<Rightarrow> file_entry list outcome \<Rightarrow> file_entry list outcome \<Rightarrow> string option" where
  "mount_error ord rf rd =
     (let mf = failure_message ''Failed to load files. Please try again.'' rf;
          md = failure_message ''Failed to load folders. Please try again.'' rd
      in case ord of
           FilesFirst \<Rightarrow> (case md of Some m \<Rightarrow> Some m | None \<Rightarrow> mf)
         | FoldersFirst \<Rightarrow> (case mf of Some m \<Rightarrow> Some m | None \<Rightarrow> md))"

text \<open>A CopyUrl event that reaches the success branch of \<open>handleCopyUrl\<close>.\<close>

fun copy_succeeds :: "event \<Rightarrow> bool" where
  "copy_succeeds (EvCopyUrl fid (Inr res) (Inr u)) = (truthy fid \<and> success res \<and> truthy (url res))"
| "copy_succeeds ev = False"

text \<open>The time that passes during a list of events.\<close>

fun elapsed :: "event list \<Rightarrow> nat" where
  "elapsed [] = 0"
| "elapsed (EvElapse d # evs) = d + elapsed evs"
| "elapsed (ev # evs) = elapsed evs"

text \<open>The service calls among the effects of a run of the route handler, in order.\<close>

definition service_calls :: "route_effect list \<times> json_response \<Rightarrow> route_effect list" where
  "service_calls r = filter is_service_call (fst r)"

text \<open>Sample values for the concrete runs below.\<close>

definition api_ok :: api_response where
  "api_ok = \<lparr>success = True, message = None, url = None\<rparr>"

definition url_ok :: api_response where
  "url_ok = \<lparr>success = True, message = None, url = Some ''https://drive.google.com/file/d/A/view''\<rparr>"

definition old_file :: file_entry where
  "old_file =
     \<lparr>file_id = Some ''id1'', file_name = Some ''old.pdf'', mimeType = Some ''application/pdf''\<rparr>"

section \<open>Properties of the filter\<close>

lemma keep_file_files_lacks: "lacks_folder f \<Longrightarrow> keep_file FilterFiles f"
  by (simp add: keep_file_def lacks_folder_def opt_includes_def truthy_bool_def
      split: option.splits)

lemma keep_file_folders_lacks: "lacks_folder f \<Longrightarrow> \<not> keep_file FilterFolders f"
  by (simp add: keep_file_def lacks_folder_def opt_includes_def truthy_bool_def
      split: option.splits)

text \<open>
  Claim C7. For a file list in which no entry's mimeType contains the substring
  "folder", the filter "files" returns the whole list and the filter "folders" returns
  the empty list; the filter "all" returns the whole list for every list.
\<close>

theorem C7_filter_without_folders:
  "(list_all lacks_folder fs \<longrightarrow>
      filteredFiles FilterFiles fs = fs \<and> filteredFiles FilterFolders fs = [])
   \<and> filteredFiles FilterAll gs = gs"
proof -
  have all: "filteredFiles FilterAll gs = gs"
    by (simp add: filteredFiles_def keep_file_def)
  have files: "list_all lacks_folder fs \<Longrightarrow> filteredFiles FilterFiles fs = fs"
    by (induction fs) (simp_all add: filteredFiles_def keep_file_files_lacks)
  have folders: "list_all lacks_folder fs \<Longrightarrow> filteredFiles FilterFolders fs = []"
    by (induction fs) (simp_all add: filteredFiles_def keep_file_folders_lacks)
  from all files folders show ?thesis by blast
qed

theorem C7_filter_without_folders_witness:
  "list_all lacks_folder
     [\<lparr>file_id = Some ''f1'', file_name = Some ''a.pdf'', mimeType = Some ''application/pdf''\<rparr>,
      \<lparr>file_id = Some ''f2'', file_name = Some ''b'', mimeType = None\<rparr>]
   \<and> filteredFiles FilterFiles
       [\<lparr>file_id = Some ''f1'', file_name = Some ''a.pdf'', mimeType = Some ''application/pdf''\<rparr>,
        \<lparr>file_id = Some ''f2'', file_name = Some ''b'', mimeType = None\<rparr>]
     = [\<lparr>file_id = Some ''f1'', file_name = Some ''a.pdf'', mimeType = Some ''application/pdf''\<rparr>,
        \<lparr>file_id = Some ''f2'', file_name = Some ''b'', mimeType = None\<rparr>]
   \<and> filteredFiles FilterFolders
       [\<lparr>file_id = Some ''f1'', file_name = Some ''a.pdf'', mimeType = Some ''application/pdf''\<rparr>,
        \<lparr>file_id = Some ''f2'', file_name = Some ''b'', mimeType = None\<rparr>]
     = []"
proof -
  have h: "list_all lacks_folder
     [\<lparr>file_id = Some ''f1'', file_name = Some ''a.pdf'', mimeType = Some ''application/pdf''\<rparr>,
      \<lparr>file_id = Some ''f2'', file_name = Some ''b'', mimeType = None\<rparr>]"
    by (simp add: lacks_folder_def)
  from h C7_filter_without_folders show ?thesis by blast
qed

text \<open>
  Claim C10. A file entry whose mimeType is absent is classified as a non-folder: the
  filter "files" keeps it and the filter "folders" drops it, in every list holding it.
\<close>

theorem C10_absent_mimeType_is_file:
  "mimeType f = None \<Longrightarrow> f \<in> set fs \<Longrightarrow>
     f \<in> set (filteredFiles FilterFiles fs) \<and> f \<notin> set (filteredFiles FilterFolders fs)"
  by (simp add: filteredFiles_def keep_file_def opt_includes_def truthy_bool_def)

theorem C10_absent_mimeType_is_file_witness:
  "mimeType \<lparr>file_id = Some ''f2'', file_name = Some ''b'', mimeType = None\<rparr> = None
   \<and> \<lparr>file_id = Some ''f2'', file_name = Some ''b'', mimeType = None\<rparr>
       \<in> set (filteredFiles FilterFiles
                [old_file, \<lparr>file_id = Some ''f2'', file_name = Some ''b'', mimeType = None\<rparr>])
   \<and> \<lparr>file_id = Some ''f2'', file_name = Some ''b'', mimeType = None\<rparr>
       \<notin> set (filteredFiles FilterFolders
                [old_file, \<lparr>file_id = Some ''f2'', file_name = Some ''b'', mimeType = None\<rparr>])"
proof -
  have m: "mimeType \<lparr>file_id = Some ''f2'', file_name = Some ''b'', mimeType = None\<rparr> = None"
    by simp
  have i: "\<lparr>file_id = Some ''f2'', file_name = Some ''b'', mimeType = None\<rparr>
      \<in> set [old_file, \<lparr>file_id = Some ''f2'', file_name = Some ''b'', mimeType = None\<rparr>]"
    by simp
  from m C10_absent_mimeType_is_file [OF m i] show ?thesis
    by blast
qed

section \<open>Properties of the Auth Guard\<close>

text \<open>
  Claim C9. With the empty access credential the Auth Guard renders the connect prompt,
  issues no validation call and does not render its children, whatever the Remote File
  Service would have answered.
\<close>

theorem C9_empty_token_connect_prompt:
  "AuthGuard (Some '''') children v = (ConnectPrompt, [])
   \<and> fst (AuthGuard (Some '''') children v) \<noteq> Children children
   \<and> snd (AuthGuard (Some '''') children v) = []"
  by (simp add: AuthGuard_def truthy_def)

section \<open>Properties of the File Table Controller\<close>

lemma trim_empty_iff: "trim n = [] \<longleftrightarrow> list_all is_space n"
proof
  assume "list_all is_space n"
  then have d: "dropWhile is_space n = []"
    by (simp add: list_all_iff dropWhile_eq_Nil_conv)
  show "trim n = []"
    by (simp only: trim_def d rev.simps dropWhile.simps)
next
  assume t: "trim n = []"
  then have all: "\<forall>x \<in> set (dropWhile is_space n). is_space x"
    by (simp add: trim_def dropWhile_eq_Nil_conv)
  have "dropWhile is_space n = []"
  proof (rule ccontr)
    assume ne: "dropWhile is_space n \<noteq> []"
    then have "\<not> is_space (hd (dropWhile is_space n))"
      by (rule hd_dropWhile)
    moreover from ne have "hd (dropWhile is_space n) \<in> set (dropWhile is_space n)"
      by simp
    ultimately show False using all by blast
  qed
  then show "list_all is_space n"
    by (simp add: dropWhile_eq_Nil_conv list_all_iff)
qed

lemma truthy_trim: "truthy (map_option trim p) \<longleftrightarrow> \<not> blank_name p"
  by (cases p) (simp_all add: truthy_def blank_name_def trim_empty_iff)

lemma effects_setLoadingState [simp]: "effects (setLoadingState k v s) = effects s"
  by (cases k) simp_all

lemma effects_emit [simp]: "effects (emit e s) = effects s @ [e]"
  by (simp add: emit_def)

lemma effects_fetchFiles: "effects (fetchFiles tok fr s) = effects s @ [FetchDriveFiles tok]"
  by (simp add: fetchFiles_def fetchFiles_start_def fetchFiles_finish_def split: sum.splits)

lemma effects_handleApiOperation:
  "effects (handleApiOperation tok req opr fr s) =
     effects s @ req # (case opr of Inr res \<Rightarrow> [FetchDriveFiles tok] | Inl e \<Rightarrow> [])"
  by (simp add: handleApiOperation_def effects_fetchFiles Let_def split: sum.splits)

lemma effects_handleRename:
  "effects (handleRename tok fid p opr fr s) =
     effects s @
       (if truthy fid
        then Prompt ''Enter new name:'' #
             (if blank_name p then []
              else CallApi Rename fid p tok #
                   (case opr of Inr res \<Rightarrow> [FetchDriveFiles tok] | Inl e \<Rightarrow> []))
        else [])"
  by (simp add: handleRename_def effects_handleApiOperation truthy_trim Let_def)

subsection \<open>Rename\<close>

text \<open>
  Claim C6. Rename with an absent (or empty) fileId changes nothing, not even showing
  the prompt. When the prompted name is absent, empty or made of white space only, no
  network call is issued. The network calls of a Rename differ from none exactly when
  the fileId is present and the trimmed name is not empty, and then they are the rename
  request, carrying the name as typed, followed by the fetch when the request did not
  throw.
\<close>

theorem C6_rename_network_calls:
  "(\<not> truthy fid \<longrightarrow> handleRename tok fid p opr fr s = s)
   \<and> (blank_name p \<longrightarrow>
        network_calls (handleRename tok fid p opr fr s) = network_calls s)
   \<and> (network_calls (handleRename tok fid p opr fr s) \<noteq> network_calls s
        \<longleftrightarrow> truthy fid \<and> \<not> blank_name p)
   \<and> (truthy fid \<and> \<not> blank_name p \<longrightarrow>
        network_calls (handleRename tok fid p opr fr s) =
          network_calls s @ CallApi Rename fid p tok #
            (case opr of Inr res \<Rightarrow> [FetchDriveFiles tok] | Inl e \<Rightarrow> []))"
proof -
  have noop: "\<not> truthy fid \<longrightarrow> handleRename tok fid p opr fr s = s"
    by (simp add: handleRename_def)
  have rest: "network_calls (handleRename tok fid p opr fr s) =
      network_calls s @
        (if truthy fid \<and> \<not> blank_name p
         then CallApi Rename fid p tok #
              (case opr of Inr res \<Rightarrow> [FetchDriveFiles tok] | Inl e \<Rightarrow> [])
         else [])"
    by (simp add: network_calls_def effects_handleRename split: sum.splits)
  show ?thesis
    using noop by (simp add: rest)
qed

theorem C6_rename_network_calls_witness:
  "handleRename ''tok'' None (Some ''new'') (Inr api_ok) (Inr []) (init_state []) = init_state []
   \<and> network_calls (handleRename ''tok'' (Some ''id1'') (Some ''  '') (Inr api_ok) (Inr []) (init_state [])) = []
   \<and> network_calls (handleRename ''tok'' (Some ''id1'') (Some '' new '') (Inr api_ok) (Inr []) (init_state []))
       = [CallApi Rename (Some ''id1'') (Some '' new '') ''tok'', FetchDriveFiles ''tok'']"
  using C6_rename_network_calls [of None "''tok''" "Some ''new''" "Inr api_ok" "Inr []" "init_state []"]
    C6_rename_network_calls [of "Some ''id1''" "''tok''" "Some ''  ''" "Inr api_ok" "Inr []" "init_state []"]
    C6_rename_network_calls [of "Some ''id1''" "''tok''" "Some '' new ''" "Inr api_ok" "Inr []" "init_state []"]
  by (simp add: truthy_def blank_name_def is_space_def network_calls_def init_state_def)

subsection \<open>CopyUrl failure\<close>

lemma or_else_nonempty: "d \<noteq> [] \<Longrightarrow> or_else v d \<noteq> []"
  by (simp add: or_else_def split: option.splits)

text \<open>
  Claim C8. When the \<open>getUrl\<close> request resolves to a response that is unsuccessful
  or carries no (or an empty) URL, an error message is surfaced: the response's message,
  or "Failed to get file URL" when it has none, never the empty string. The clipboard is
  not written (no write is attempted either), the "copied" flag and the timers stay as
  they were.
\<close>

theorem C8_copy_url_failure:
  "truthy fid \<Longrightarrow> \<not> (success res \<and> truthy (url res)) \<Longrightarrow>
     error (handleCopyUrl tok fid (Inr res) cw s)
       = Some (or_else (message res) ''Failed to get file URL'')
     \<and> or_else (message res) ''Failed to get file URL'' \<noteq> []
     \<and> clipboard (handleCopyUrl tok fid (Inr res) cw s) = clipboard s
     \<and> copiedFileId (handleCopyUrl tok fid (Inr res) cw s) = copiedFileId s
     \<and> timers (handleCopyUrl tok fid (Inr res) cw s) = timers s
     \<and> effects (handleCopyUrl tok fid (Inr res) cw s) = effects s @ [CallApi GetUrl fid None tok]"
proof -
  assume f: "truthy fid" and n: "\<not> (success res \<and> truthy (url res))"
  have h: "handleCopyUrl tok fid (Inr res) cw s =
      setLoadingState KOperations False
        (copy_failed (ErrorObj (or_else (message res) ''Failed to get file URL''))
           (emit (CallApi GetUrl fid None tok)
              ((setLoadingState KOperations True s)\<lparr>error := None\<rparr>)))"
  proof -
    from n have c: "(success res \<and> truthy (url res)) = False"
      by simp
    show ?thesis
      by (simp only: handleCopyUrl_def Let_def f c not_True_eq_False if_False sum.case)
  qed
  show ?thesis
    by (simp add: h copy_failed_def emit_def err_message_def or_else_nonempty)
qed

theorem C8_copy_url_failure_witness:
  "error (handleCopyUrl ''tok'' (Some ''id1'')
            (Inr \<lparr>success = False, message = Some ''File not found'', url = None\<rparr>) (Inr ())
            (init_state [])) = Some ''File not found''
   \<and> clipboard (handleCopyUrl ''tok'' (Some ''id1'')
            (Inr \<lparr>success = False, message = Some ''File not found'', url = None\<rparr>) (Inr ())
            (init_state [])) = None
   \<and> copiedFileId (handleCopyUrl ''tok'' (Some ''id1'')
            (Inr \<lparr>success = False, message = Some ''File not found'', url = None\<rparr>) (Inr ())
            (init_state [])) = None
   \<and> error (handleCopyUrl ''tok'' (Some ''id1'')
            (Inr \<lparr>success = True, message = None, url = Some ''''\<rparr>) (Inr ())
            (init_state [])) = Some ''Failed to get file URL''"
  using C8_copy_url_failure [of "Some ''id1''"
          "\<lparr>success = False, message = Some ''File not found'', url = None\<rparr>"
          "''tok''" "Inr ()" "init_state []"]
    C8_copy_url_failure [of "Some ''id1''"
          "\<lparr>success = True, message = None, url = Some ''''\<rparr>"
          "''tok''" "Inr ()" "init_state []"]
  by (simp add: truthy_def or_else_def init_state_def)

subsection \<open>Re-fetch after a mutating operation\<close>

lemma files_setLoadingState [simp]: "files (setLoadingState k v s) = files s"
  by (cases k) simp_all

lemma error_setLoadingState [simp]: "error (setLoadingState k v s) = error s"
  by (cases k) simp_all

lemma files_handleApiOperation_ok:
  "files (handleApiOperation tok req (Inr res) fr s) = (case fr of Inr fs \<Rightarrow> fs | Inl e \<Rightarrow> files s)"
  by (simp add: handleApiOperation_def fetchFiles_def fetchFiles_start_def fetchFiles_finish_def
      emit_def Let_def split: sum.splits)

lemma error_handleApiOperation_ok:
  "error (handleApiOperation tok req (Inr res) fr s) =
     (case fr of Inr fs \<Rightarrow> None
      | Inl e \<Rightarrow> Some (err_message e ''Failed to load files. Please try again.''))"
  by (simp add: handleApiOperation_def fetchFiles_def fetchFiles_start_def fetchFiles_finish_def
      emit_def Let_def split: sum.splits)

text \<open>
  Claim C5 as stated fails: the rename request succeeds, the one fetch that follows
  fails, and the list displayed before the rename is still the one displayed after it.
\<close>

theorem C5_refetch_counterexample:
  "files (handleRename ''tok'' (Some ''id1'') (Some ''new.pdf'') (Inr api_ok)
            (Inl (ErrorObj ''offline'')) (init_state [old_file])) = files (init_state [old_file])
   \<and> filter is_network (effects (handleRename ''tok'' (Some ''id1'') (Some ''new.pdf'') (Inr api_ok)
            (Inl (ErrorObj ''offline'')) (init_state [old_file])))
       = [CallApi Rename (Some ''id1'') (Some ''new.pdf'') ''tok'', FetchDriveFiles ''tok'']"
proof -
  have t: "truthy (Some ''id1'')" "\<not> blank_name (Some ''new.pdf'')"
    by (simp_all add: truthy_def blank_name_def is_space_def)
  have f: "files (handleRename ''tok'' (Some ''id1'') (Some ''new.pdf'') (Inr api_ok)
            (Inl (ErrorObj ''offline'')) (init_state [old_file])) = [old_file]"
    using t by (simp add: handleRename_def truthy_trim Let_def files_handleApiOperation_ok
        emit_def init_state_def)
  have e: "effects (handleRename ''tok'' (Some ''id1'') (Some ''new.pdf'') (Inr api_ok)
            (Inl (ErrorObj ''offline'')) (init_state [old_file]))
       = [Prompt ''Enter new name:'', CallApi Rename (Some ''id1'') (Some ''new.pdf'') ''tok'',
          FetchDriveFiles ''tok'']"
    using t by (simp add: effects_handleRename init_state_def)
  have i: "files (init_state [old_file]) = [old_file]"
    by (simp add: init_state_def)
  show ?thesis
    by (simp add: f e i)
qed

text \<open>
  Claim C5, amended. After a rename or a confirmed delete whose request did not throw,
  exactly one fetch of the file list is issued, right after the request. When that fetch
  succeeds the displayed list is replaced by the fetched one and no error is shown; when
  it fails the previous list stays displayed and the fetch's error is shown.
\<close>

theorem C5_refetch_once:
  "(truthy fid \<and> \<not> blank_name p \<longrightarrow>
      effects (handleRename tok fid p (Inr res) fr s) =
        effects s @ [Prompt ''Enter new name:'', CallApi Rename fid p tok, FetchDriveFiles tok]
      \<and> files (handleRename tok fid p (Inr res) fr s) = (case fr of Inr fs \<Rightarrow> fs | Inl e \<Rightarrow> files s)
      \<and> error (handleRename tok fid p (Inr res) fr s) =
          (case fr of Inr fs \<Rightarrow> None
           | Inl e \<Rightarrow> Some (err_message e ''Failed to load files. Please try again.'')))
   \<and> (truthy (fileId (deleteModal s)) \<longrightarrow>
      effects (confirmDelete tok (Inr res) fr s) =
        effects s @ [CallApi Delete (fileId (deleteModal s)) None tok, FetchDriveFiles tok]
      \<and> files (confirmDelete tok (Inr res) fr s) = (case fr of Inr fs \<Rightarrow> fs | Inl e \<Rightarrow> files s)
      \<and> error (confirmDelete tok (Inr res) fr s) =
          (case fr of Inr fs \<Rightarrow> None
           | Inl e \<Rightarrow> Some (err_message e ''Failed to load files. Please try again.'')))"
proof -
  have rename: "truthy fid \<and> \<not> blank_name p \<Longrightarrow>
      handleRename tok fid p (Inr res) fr s =
        handleApiOperation tok (CallApi Rename fid p tok) (Inr res) fr
          (emit (Prompt ''Enter new name:'') s)"
    by (simp add: handleRename_def truthy_trim Let_def)
  have delete: "truthy (fileId (deleteModal s)) \<Longrightarrow>
      confirmDelete tok (Inr res) fr s =
        (handleApiOperation tok (CallApi Delete (fileId (deleteModal s)) None tok) (Inr res) fr s)
        \<lparr>deleteModal := closed_modal\<rparr>"
    by (simp add: confirmDelete_def)
  show ?thesis
    by (simp add: rename delete effects_handleApiOperation files_handleApiOperation_ok
        error_handleApiOperation_ok emit_def split: sum.splits)
qed

theorem C5_refetch_once_witness:
  "effects (handleRename ''tok'' (Some ''id1'') (Some ''new.pdf'') (Inr api_ok) (Inr []) (init_state [old_file]))
     = [Prompt ''Enter new name:'', CallApi Rename (Some ''id1'') (Some ''new.pdf'') ''tok'',
        FetchDriveFiles ''tok'']
   \<and> files (handleRename ''tok'' (Some ''id1'') (Some ''new.pdf'') (Inr api_ok) (Inr []) (init_state [old_file])) = []
   \<and> effects (confirmDelete ''tok'' (Inr api_ok) (Inr [])
               (handleDelete (Some ''id1'') (Some ''old.pdf'') (init_state [old_file])))
     = [CallApi Delete (Some ''id1'') None ''tok'', FetchDriveFiles ''tok'']
   \<and> files (confirmDelete ''tok'' (Inr api_ok) (Inr [])
               (handleDelete (Some ''id1'') (Some ''old.pdf'') (init_state [old_file]))) = []"
  using C5_refetch_once [of "Some ''id1''" "Some ''new.pdf''" "''tok''" api_ok "Inr []" "init_state [old_file]"]
    C5_refetch_once [of "Some ''id1''" "Some ''new.pdf''" "''tok''" api_ok "Inr []"
       "handleDelete (Some ''id1'') (Some ''old.pdf'') (init_state [old_file])"]
  by (simp add: truthy_def blank_name_def is_space_def init_state_def handleDelete_def)

subsection \<open>Delete confirmation\<close>

lemma deleteModal_setLoadingState [simp]: "deleteModal (setLoadingState k v s) = deleteModal s"
  by (cases k) simp_all

lemma deleteModal_emit [simp]: "deleteModal (emit e s) = deleteModal s"
  by (simp add: emit_def)

lemma deleteModal_fetchFiles_start [simp]: "deleteModal (fetchFiles_start tok s) = deleteModal s"
  by (simp add: fetchFiles_start_def)

lemma deleteModal_fetchFiles_finish [simp]: "deleteModal (fetchFiles_finish r s) = deleteModal s"
  by (simp add: fetchFiles_finish_def split: sum.splits)

lemma deleteModal_fetchFolders_start [simp]: "deleteModal (fetchFolders_start tok s) = deleteModal s"
  by (simp add: fetchFolders_start_def)

lemma deleteModal_fetchFolders_finish [simp]: "deleteModal (fetchFolders_finish r s) = deleteModal s"
  by (simp add: fetchFolders_finish_def split: sum.splits)

lemma deleteModal_handleApiOperation [simp]:
  "deleteModal (handleApiOperation tok req opr fr s) = deleteModal s"
  by (simp add: handleApiOperation_def fetchFiles_def Let_def split: sum.splits)

lemma deleteModal_handleRename [simp]: "deleteModal (handleRename tok fid p opr fr s) = deleteModal s"
  by (simp add: handleRename_def Let_def)

lemma deleteModal_handleCopyUrl [simp]: "deleteModal (handleCopyUrl tok fid r cw s) = deleteModal s"
  by (simp add: handleCopyUrl_def copy_failed_def Let_def split: sum.splits)

lemma deleteModal_elapse [simp]: "deleteModal (elapse d s) = deleteModal s"
  by (simp add: elapse_def Let_def)

lemma modal_consistent_step:
  "modal_consistent (deleteModal s) \<Longrightarrow> modal_consistent (deleteModal (step tok ev s))"
  by (cases ev) (auto simp add: modal_consistent_def handleDelete_def confirmDelete_def onClose_def)

lemma run_modal_consistent:
  "modal_consistent (deleteModal s) \<Longrightarrow> modal_consistent (deleteModal (run tok evs s))"
  by (induction evs arbitrary: s) (simp_all add: modal_consistent_step)

lemma init_modal_consistent: "modal_consistent (deleteModal (init_state initialFiles))"
  by (simp add: modal_consistent_def init_state_def)

text \<open>
  Claim C4. In every state the controller reaches from its initial state, by any events,
  confirming the delete (whether the delete request or the fetch after it succeeds or
  fails) and cancelling both leave the confirmation state with isOpen = false and
  fileId = null.
\<close>

theorem C4_modal_closed:
  "isOpen (deleteModal (confirmDelete tok opr fr (run tok evs (init_state initialFiles)))) = False
   \<and> fileId (deleteModal (confirmDelete tok opr fr (run tok evs (init_state initialFiles)))) = None
   \<and> isOpen (deleteModal (onClose (run tok evs (init_state initialFiles)))) = False
   \<and> fileId (deleteModal (onClose (run tok evs (init_state initialFiles)))) = None"
proof -
  let ?s = "run tok evs (init_state initialFiles)"
  have "modal_consistent (deleteModal ?s)"
    by (rule run_modal_consistent [OF init_modal_consistent])
  then have "deleteModal (confirmDelete tok opr fr ?s) = closed_modal"
    by (auto simp add: confirmDelete_def modal_consistent_def)
  moreover have "deleteModal (onClose ?s) = closed_modal"
    by (simp add: onClose_def)
  ultimately show ?thesis
    by (simp add: closed_modal_def)
qed

theorem C4_modal_closed_witness:
  "isOpen (deleteModal (run ''tok'' [EvDelete (Some ''id1'') (Some ''old.pdf'')] (init_state [old_file])))
   \<and> isOpen (deleteModal (confirmDelete ''tok'' (Inl (ErrorObj ''boom'')) (Inr [])
        (run ''tok'' [EvDelete (Some ''id1'') (Some ''old.pdf'')] (init_state [old_file])))) = False
   \<and> fileId (deleteModal (confirmDelete ''tok'' (Inl (ErrorObj ''boom'')) (Inr [])
        (run ''tok'' [EvDelete (Some ''id1'') (Some ''old.pdf'')] (init_state [old_file])))) = None
   \<and> fileId (deleteModal (onClose
        (run ''tok'' [EvDelete (Some ''id1'') (Some ''old.pdf'')] (init_state [old_file])))) = None"
proof -
  have o: "isOpen (deleteModal (run ''tok'' [EvDelete (Some ''id1'') (Some ''old.pdf'')]
      (init_state [old_file])))"
    by (simp add: handleDelete_def truthy_def)
  from o C4_modal_closed [of "''tok''" "Inl (ErrorObj ''boom'')" "Inr []"
      "[EvDelete (Some ''id1'') (Some ''old.pdf'')]" "[old_file]"]
  show ?thesis
    by blast
qed

subsection \<open>List on mount\<close>

lemma isLoading_emit [simp]: "isLoading (emit e s) = isLoading s"
  by (simp add: emit_def)

lemma mount_started:
  "isLoading (fetchFolders_start tok (fetchFiles_start tok s)) =
     (isLoading s)\<lparr>ld_files := True, ld_folders := True\<rparr>"
  by (simp add: fetchFolders_start_def fetchFiles_start_def emit_def)

text \<open>
  Claim C2 as stated fails: the two fetches write one shared error slot. With the files
  fetch failing first, the error it reported is displayed when the folders fetch
  succeeds and is replaced by the folders fetch's error when that one fails too.
\<close>

theorem C2_mount_counterexample:
  "error (mount_effect ''tok'' FilesFirst (Inl (ErrorObj ''files down'')) (Inr []) (init_state []))
     = Some ''files down''
   \<and> error (mount_effect ''tok'' FilesFirst (Inl (ErrorObj ''files down''))
              (Inl (ErrorObj ''folders down'')) (init_state []))
     = Some ''folders down''"
  by (simp add: mount_effect_def fetchFolders_start_def fetchFiles_start_def
      fetchFolders_finish_def fetchFiles_finish_def emit_def init_state_def err_message_def)

text \<open>
  Claim C2, amended. On mount both fetches are issued, files then folders, and both
  loading flags are raised before either settles. Whatever the two outcomes and the order
  in which they settle: each fetch lowers its own loading flag, a fetch that succeeds
  stores its list whether or not the other failed, a fetch that fails leaves its list as
  it was, and the single shared error slot ends holding the message of the fetch that
  failed last (none when both succeeded), so one fetch's error can be replaced by the
  other's.
\<close>

theorem C2_mount_fetches:
  "effects (mount_effect tok ord rf rd s) = effects s @ [FetchDriveFiles tok, FetchDriveFolders tok]
   \<and> isLoading (fetchFolders_start tok (fetchFiles_start tok s))
       = (isLoading s)\<lparr>ld_files := True, ld_folders := True\<rparr>
   \<and> isLoading (mount_effect tok ord rf rd s) = (isLoading s)\<lparr>ld_files := False, ld_folders := False\<rparr>
   \<and> files (mount_effect tok ord rf rd s) = (case rf of Inr fs \<Rightarrow> fs | Inl e \<Rightarrow> files s)
   \<and> folders (mount_effect tok ord rf rd s) = (case rd of Inr ds \<Rightarrow> ds | Inl e \<Rightarrow> folders s)
   \<and> error (mount_effect tok ord rf rd s) = mount_error ord rf rd"
proof -
  have eff: "effects (mount_effect tok ord rf rd s)
      = effects s @ [FetchDriveFiles tok, FetchDriveFolders tok]"
    by (cases ord; cases rf; cases rd)
      (simp_all add: mount_effect_def fetchFolders_start_def fetchFiles_start_def
        fetchFolders_finish_def fetchFiles_finish_def emit_def)
  have ld: "isLoading (mount_effect tok ord rf rd s)
      = (isLoading s)\<lparr>ld_files := False, ld_folders := False\<rparr>"
    by (cases ord; cases rf; cases rd)
      (simp_all add: mount_effect_def fetchFolders_start_def fetchFiles_start_def
        fetchFolders_finish_def fetchFiles_finish_def emit_def)
  have fl: "files (mount_effect tok ord rf rd s) = (case rf of Inr fs \<Rightarrow> fs | Inl e \<Rightarrow> files s)"
    by (cases ord; cases rf; cases rd)
      (simp_all add: mount_effect_def fetchFolders_start_def fetchFiles_start_def
        fetchFolders_finish_def fetchFiles_finish_def emit_def)
  have fd: "folders (mount_effect tok ord rf rd s) = (case rd of Inr ds \<Rightarrow> ds | Inl e \<Rightarrow> folders s)"
    by (cases ord; cases rf; cases rd)
      (simp_all add: mount_effect_def fetchFolders_start_def fetchFiles_start_def
        fetchFolders_finish_def fetchFiles_finish_def emit_def)
  have er: "error (mount_effect tok ord rf rd s) = mount_error ord rf rd"
    by (cases ord; cases rf; cases rd)
      (simp_all add: mount_effect_def fetchFolders_start_def fetchFiles_start_def
        fetchFolders_finish_def fetchFiles_finish_def emit_def mount_error_def
        failure_message_def)
  from eff ld fl fd er mount_started show ?thesis
    by simp
qed

subsection \<open>The "copied" flag\<close>

lemma copy_cells_fetch [simp]:
  "copiedFileId (fetchFiles_start tok s) = copiedFileId s"
  "timers (fetchFiles_start tok s) = timers s"
  "now (fetchFiles_start tok s) = now s"
  "copiedFileId (fetchFiles_finish r s) = copiedFileId s"
  "timers (fetchFiles_finish r s) = timers s"
  "now (fetchFiles_finish r s) = now s"
  "copiedFileId (fetchFolders_start tok s) = copiedFileId s"
  "timers (fetchFolders_start tok s) = timers s"
  "now (fetchFolders_start tok s) = now s"
  "copiedFileId (fetchFolders_finish r s) = copiedFileId s"
  "timers (fetchFolders_finish r s) = timers s"
  "now (fetchFolders_finish r s) = now s"
  by (simp_all add: fetchFiles_start_def fetchFiles_finish_def fetchFolders_start_def
      fetchFolders_finish_def emit_def split: sum.splits)

lemma copy_cells_handleApiOperation [simp]:
  "copiedFileId (handleApiOperation tok req opr fr s) = copiedFileId s"
  "timers (handleApiOperation tok req opr fr s) = timers s"
  "now (handleApiOperation tok req opr fr s) = now s"
  by (simp_all add: handleApiOperation_def fetchFiles_def emit_def Let_def split: sum.splits)

lemma copy_cells_handlers [simp]:
  "copiedFileId (handleRename tok fid p opr fr s) = copiedFileId s"
  "timers (handleRename tok fid p opr fr s) = timers s"
  "now (handleRename tok fid p opr fr s) = now s"
  "copiedFileId (handleDelete fid fname s) = copiedFileId s"
  "timers (handleDelete fid fname s) = timers s"
  "now (handleDelete fid fname s) = now s"
  "copiedFileId (confirmDelete tok opr fr s) = copiedFileId s"
  "timers (confirmDelete tok opr fr s) = timers s"
  "now (confirmDelete tok opr fr s) = now s"
  "copiedFileId (onClose s) = copiedFileId s"
  "timers (onClose s) = timers s"
  "now (onClose s) = now s"
  by (simp_all add: handleRename_def handleDelete_def confirmDelete_def onClose_def emit_def Let_def)

lemma copy_cells_failed_copy:
  "\<not> copy_succeeds (EvCopyUrl fid r cw) \<Longrightarrow>
     copiedFileId (handleCopyUrl tok fid r cw s) = copiedFileId s
     \<and> timers (handleCopyUrl tok fid r cw s) = timers s
     \<and> now (handleCopyUrl tok fid r cw s) = now s"
  by (cases r; cases cw)
    (auto simp add: handleCopyUrl_def copy_failed_def emit_def Let_def)

lemma copy_cells_step:
  "\<not> copy_succeeds ev \<Longrightarrow> \<forall>d. ev \<noteq> EvElapse d \<Longrightarrow>
     copiedFileId (step tok ev s) = copiedFileId s
     \<and> timers (step tok ev s) = timers s
     \<and> now (step tok ev s) = now s"
  by (cases ev) (simp_all add: copy_cells_failed_copy)

lemma elapsed_Cons_other: "\<forall>d. ev \<noteq> EvElapse d \<Longrightarrow> elapsed (ev # evs) = elapsed evs"
  by (cases ev) simp_all

lemma copied_after_run:
  "list_all (\<lambda>ev. \<not> copy_succeeds ev) evs \<Longrightarrow>
   (timers s = [due] \<and> copiedFileId s = fid \<and> now s < due)
     \<or> (timers s = [] \<and> copiedFileId s = None \<and> due \<le> now s) \<Longrightarrow>
   copiedFileId (run tok evs s) = (if now s + elapsed evs < due then fid else None)"
proof (induction evs arbitrary: s)
  case Nil
  then show ?case by auto
next
  case (Cons ev evs)
  from Cons.prems(1) have nc: "\<not> copy_succeeds ev"
    and rest: "list_all (\<lambda>ev. \<not> copy_succeeds ev) evs"
    by simp_all
  show ?case
  proof (cases "\<exists>d. ev = EvElapse d")
    case True
    then obtain d where ev: "ev = EvElapse d" by blast
    have phase: "(timers (elapse d s) = [due] \<and> copiedFileId (elapse d s) = fid
                    \<and> now (elapse d s) < due)
        \<or> (timers (elapse d s) = [] \<and> copiedFileId (elapse d s) = None
              \<and> due \<le> now (elapse d s))"
      using Cons.prems(2) by (auto simp add: elapse_def Let_def)
    have "copiedFileId (run tok evs (elapse d s))
        = (if now (elapse d s) + elapsed evs < due then fid else None)"
      by (rule Cons.IH [OF rest phase])
    moreover have "now (elapse d s) = now s + d"
      by (simp add: elapse_def Let_def)
    ultimately show ?thesis
      by (simp add: ev add.assoc)
  next
    case False
    then have ne: "\<forall>d. ev \<noteq> EvElapse d" by blast
    have cells: "copiedFileId (step tok ev s) = copiedFileId s
        \<and> timers (step tok ev s) = timers s \<and> now (step tok ev s) = now s"
      by (rule copy_cells_step [OF nc ne])
    have phase: "(timers (step tok ev s) = [due] \<and> copiedFileId (step tok ev s) = fid
                    \<and> now (step tok ev s) < due)
        \<or> (timers (step tok ev s) = [] \<and> copiedFileId (step tok ev s) = None
              \<and> due \<le> now (step tok ev s))"
      using Cons.prems(2) cells by simp
    have "copiedFileId (run tok evs (step tok ev s))
        = (if now (step tok ev s) + elapsed evs < due then fid else None)"
      by (rule Cons.IH [OF rest phase])
    then show ?thesis
      using cells by (simp add: elapsed_Cons_other [OF ne])
  qed
qed

lemma copy_success_state:
  "truthy fid \<Longrightarrow> success res \<Longrightarrow> truthy (url res) \<Longrightarrow>
     copiedFileId (handleCopyUrl tok fid (Inr res) (Inr ()) s) = fid
     \<and> timers (handleCopyUrl tok fid (Inr res) (Inr ()) s) = timers s @ [now s + 2000]
     \<and> now (handleCopyUrl tok fid (Inr res) (Inr ()) s) = now s
     \<and> clipboard (handleCopyUrl tok fid (Inr res) (Inr ()) s) = url res"
  by (simp add: handleCopyUrl_def emit_def Let_def)

text \<open>
  Claim C3 as stated fails: a second successful CopyUrl inside the window takes the flag
  away from the first row after 1000 ms, and the first copy's timer then clears the
  second row's flag 1000 ms after it was set.
\<close>

theorem C3_second_copy_counterexample:
  "copiedFileId (run ''tok''
      [EvCopyUrl (Some ''A'') (Inr url_ok) (Inr ()), EvElapse 1000,
       EvCopyUrl (Some ''B'') (Inr url_ok) (Inr ())] (init_state [])) = Some ''B''
   \<and> copiedFileId (run ''tok''
      [EvCopyUrl (Some ''A'') (Inr url_ok) (Inr ()), EvElapse 1000,
       EvCopyUrl (Some ''B'') (Inr url_ok) (Inr ()), EvElapse 1000] (init_state [])) = None"
  by (simp add: handleCopyUrl_def emit_def Let_def elapse_def init_state_def truthy_def url_ok_def)

text \<open>
  Claim C3, amended. Take a successful CopyUrl(fileId) issued while no earlier copy's
  timer is pending, and let any events follow among which no CopyUrl succeeds (fetches,
  filter changes, renames, delete requests, confirmations, cancellations, failed copies,
  time passing). Then the row of fileId is the flagged one as long as less than 2000 ms
  of the controller's clock have passed since the copy, and no row is flagged from
  2000 ms on.
\<close>

theorem C3_copied_window:
  "timers s = [] \<Longrightarrow> truthy fid \<Longrightarrow> success res \<Longrightarrow> truthy (url res) \<Longrightarrow>
   list_all (\<lambda>ev. \<not> copy_succeeds ev) evs \<Longrightarrow>
     copiedFileId (run tok evs (handleCopyUrl tok fid (Inr res) (Inr ()) s))
       = (if elapsed evs < 2000 then fid else None)"
proof -
  assume t: "timers s = []" and f: "truthy fid" and ok: "success res" "truthy (url res)"
    and evs: "list_all (\<lambda>ev. \<not> copy_succeeds ev) evs"
  let ?s = "handleCopyUrl tok fid (Inr res) (Inr ()) s"
  from copy_success_state [OF f ok, of tok s] t
  have phase: "(timers ?s = [now s + 2000] \<and> copiedFileId ?s = fid \<and> now ?s < now s + 2000)
      \<or> (timers ?s = [] \<and> copiedFileId ?s = None \<and> now s + 2000 \<le> now ?s)"
    by simp
  have "copiedFileId (run tok evs ?s) = (if now ?s + elapsed evs < now s + 2000 then fid else None)"
    by (rule copied_after_run [OF evs phase])
  moreover have "now ?s = now s"
    using copy_success_state [OF f ok, of tok s] by simp
  ultimately show ?thesis
    by simp
qed

theorem C3_copied_window_witness:
  "copiedFileId (run ''tok''
      [EvSetFilter FilterFiles, EvElapse 1999, EvDelete (Some ''A'') None]
      (handleCopyUrl ''tok'' (Some ''A'') (Inr url_ok) (Inr ()) (init_state []))) = Some ''A''
   \<and> copiedFileId (run ''tok''
      [EvElapse 1999, EvCopyUrl (Some ''B'') (Inl NonError) (Inr ()), EvElapse 1]
      (handleCopyUrl ''tok'' (Some ''A'') (Inr url_ok) (Inr ()) (init_state []))) = None"
proof -
  have t: "timers (init_state []) = []"
    by (simp add: init_state_def)
  have f: "truthy (Some ''A'')"
    by (simp add: truthy_def)
  have ok: "success url_ok" "truthy (url url_ok)"
    by (simp_all add: url_ok_def truthy_def)
  have e1: "list_all (\<lambda>ev. \<not> copy_succeeds ev)
      [EvSetFilter FilterFiles, EvElapse 1999, EvDelete (Some ''A'') None]"
    by simp
  have e2: "list_all (\<lambda>ev. \<not> copy_succeeds ev)
      [EvElapse 1999, EvCopyUrl (Some ''B'') (Inl NonError) (Inr ()), EvElapse 1]"
    by simp
  show ?thesis
    using C3_copied_window [OF t f ok e1, of "''tok''"] C3_copied_window [OF t f ok e2, of "''tok''"]
    by simp
qed

section \<open>Properties of the management record route\<close>

lemma id_char_slash [simp]: "\<not> id_char CHR ''/''"
  by (simp add: id_char_def)

lemma takeWhile_id_view:
  "list_all id_char fid \<Longrightarrow> takeWhile id_char (fid @ ''/view'') = fid"
  by (induction fid) simp_all

lemma match_drive_url:
  "fid \<noteq> [] \<Longrightarrow> list_all id_char fid \<Longrightarrow>
     match_file_id (''https://drive.google.com/file/d/'' @ fid @ ''/view'') = Some fid"
  by (simp add: takeWhile_id_view)

lemma includes_drive_url:
  "includes_str (''https://drive.google.com/file/d/'' @ rest) ''drive.google.com/file/d/''"
  by simp

lemma delete_photo_drive_url:
  assumes "fid \<noteq> []" and "list_all id_char fid"
    and "photo m = Some (''https://drive.google.com/file/d/'' @ fid @ ''/view'')"
  shows "delete_photo req m ca =
     (let accessToken = map_option (\<lambda>h. replace_first h ''Bearer '' '''') (authorization req)
      in if truthy accessToken then
           CallApiDelete fid (the accessToken) #
             (case ca of Inl e \<Rightarrow> [ConsoleWarn] | Inr res \<Rightarrow> [])
         else [])"
proof -
  have m: "match_file_id (the (photo m)) = Some fid"
    unfolding assms(3) option.sel by (rule match_drive_url [OF assms(1,2)])
  have i: "includes_str (the (photo m)) ''drive.google.com/file/d/''"
    unfolding assms(3) option.sel by (rule includes_drive_url)
  have t: "truthy (photo m)"
    using assms(3) by (simp add: truthy_def)
  show ?thesis
    by (simp only: delete_photo_def m i t simp_thms if_True option.case)
qed

text \<open>
  Claim C1 as stated fails. For the record of the scenario and a request without an
  Authorization header the handler issues no Remote File Service call at all. And the
  fileId it sends is the longest run of letters, digits, \<open>_\<close> and \<open>-\<close> after
  \<open>/file/d/\<close>, which is not the whole \<open><ID>\<close> when that holds another character.
\<close>

theorem C1_delete_counterexample:
  "service_calls (DELETE \<lparr>authorization = None\<rparr> ''42''
       (Inr \<lparr>photo = Some ''https://drive.google.com/file/d/ABC123/view''\<rparr>)
       (Inr api_ok) (Inr ()))
     = [GetManagement ''42'', DeleteManagement ''42'']
   \<and> service_calls (DELETE \<lparr>authorization = Some ''Bearer tok''\<rparr> ''42''
       (Inr \<lparr>photo = Some ''https://drive.google.com/file/d/AB.C/view''\<rparr>)
       (Inr api_ok) (Inr ()))
     = [GetManagement ''42'', CallApiDelete ''AB'' ''tok'', DeleteManagement ''42'']"
  by (simp add: service_calls_def DELETE_def delete_photo_def truthy_def id_char_def)

text \<open>
  Claim C1, amended. Let the stored record's photo be
  \<open>https://drive.google.com/file/d/<ID>/view\<close> with \<open><ID>\<close> a non-empty run of
  letters, digits, \<open>_\<close> and \<open>-\<close>, and let the request carry an Authorization header
  that is not empty once its first \<open>Bearer \<close> is removed. Then the handler's calls are,
  in this order: the record read, exactly one Remote File Service delete with
  fileId = \<open><ID>\<close> and that token, and the record delete; this holds whether the
  photo delete succeeds or fails and whether the record delete succeeds or fails.
\<close>

theorem C1_delete_photo_then_record:
  "fid \<noteq> [] \<Longrightarrow> list_all id_char fid \<Longrightarrow>
   photo m = Some (''https://drive.google.com/file/d/'' @ fid @ ''/view'') \<Longrightarrow>
   authorization req = Some h \<Longrightarrow> replace_first h ''Bearer '' '''' \<noteq> [] \<Longrightarrow>
     service_calls (DELETE req rid (Inr m) ca dm)
       = [GetManagement rid, CallApiDelete fid (replace_first h ''Bearer '' ''''),
          DeleteManagement rid]"
proof -
  assume a: "fid \<noteq> []" "list_all id_char fid"
    "photo m = Some (''https://drive.google.com/file/d/'' @ fid @ ''/view'')"
    and h: "authorization req = Some h" "replace_first h ''Bearer '' '''' \<noteq> []"
  have p: "\<And>c. delete_photo req m c =
      CallApiDelete fid (replace_first h ''Bearer '' '''') #
        (case c of Inl e \<Rightarrow> [ConsoleWarn] | Inr res \<Rightarrow> [])"
    using h by (simp add: delete_photo_drive_url [OF a] truthy_def)
  show ?thesis
    by (cases ca; cases dm) (simp_all add: service_calls_def DELETE_def p)
qed

theorem C1_delete_photo_then_record_witness:
  "service_calls (DELETE \<lparr>authorization = Some ''Bearer tok''\<rparr> ''42''
       (Inr \<lparr>photo = Some ''https://drive.google.com/file/d/ABC123/view''\<rparr>)
       (Inl (ErrorObj ''drive is down'')) (Inr ()))
     = [GetManagement ''42'', CallApiDelete ''ABC123'' ''tok'', DeleteManagement ''42'']"
proof -
  have a: "''ABC123'' \<noteq> []" "list_all id_char ''ABC123''"
    by (simp_all add: id_char_def)
  have p: "photo \<lparr>photo = Some ''https://drive.google.com/file/d/ABC123/view''\<rparr>
      = Some (''https://drive.google.com/file/d/'' @ ''ABC123'' @ ''/view'')"
    by simp
  have h: "authorization \<lparr>authorization = Some ''Bearer tok''\<rparr> = Some ''Bearer tok''"
    "replace_first ''Bearer tok'' ''Bearer '' '''' \<noteq> []"
    by simp_all
  show ?thesis
    using C1_delete_photo_then_record [OF a p h, of "''42''" "Inl (ErrorObj ''drive is down'')" "Inr ()"]
    by simp
qed

end
